theory Spec2Isabelle
  imports Main
begin

section \<open>JavaScript values\<close>

text \<open>
  An optional string (\<^verbatim>\<open>string | undefined\<close>) is a \<^typ>\<open>string option\<close>. A string is
  truthy when it is present and not empty; \<^verbatim>\<open>a || b\<close> is \<open>a\<close> when \<open>a\<close> is truthy and
  \<open>b\<close> otherwise.
\<close>

definition truthy :: "string option \<Rightarrow> bool" where
  "truthy v = (case v of None \<Rightarrow> False | Some s \<Rightarrow> s \<noteq> [])"

definition orElse :: "string option \<Rightarrow> string \<Rightarrow> string" where
  "orElse v d = (case v of None \<Rightarrow> d | Some s \<Rightarrow> if s = [] then d else s)"

text \<open>
  \<^verbatim>\<open>String.prototype.split\<close> with a one-character separator: the pieces between the
  separators, never an empty array (\<^verbatim>\<open>''.split('.')\<close> is \<^verbatim>\<open>['']\<close>).
  \<^verbatim>\<open>Array.prototype.pop\<close> returns the last element, \<^verbatim>\<open>undefined\<close> on an empty array.
\<close>

fun split_from :: "char \<Rightarrow> string \<Rightarrow> string \<Rightarrow> string list" where
  "split_from c piece [] = [piece]"
| "split_from c piece (x # xs) =
     (if x = c then piece # split_from c [] xs else split_from c (piece @ [x]) xs)"

definition split_on :: "char \<Rightarrow> string \<Rightarrow> string list" where
  "split_on c s = split_from c [] s"

definition pop :: "string list \<Rightarrow> string option" where
  "pop xs = (if xs = [] then None else Some (last xs))"

section \<open>Errors\<close>

text \<open>
  What an operation can raise: the request validation rejects a body (with the offending
  properties), the database rejects a write, the signer rejects a command (with the member
  that has no value).
\<close>

datatype error = ValidationError "string list" | QueryFailedError | SignerError string

section \<open>Object storage: presigned URLs\<close>

text \<open>
  The commands of the S3 client that the backend signs. \<^verbatim>\<open>process.env.S3_BUCKET\<close> may be
  unset, and \<^verbatim>\<open>job.outputFileKey!\<close> only silences the type checker, so bucket and download
  key are optional. The signer of the AWS SDK is outside the repository. It raises when the
  bucket or the key of the command has no value (absent or empty); otherwise the presigned
  URL is the symbolic value recording which command was signed and for how many seconds.
\<close>

datatype S3Command =
    PutObjectCommand (Bucket: "string option") (PutKey: string) (ContentType: string)
  | GetObjectCommand (Bucket: "string option") (GetKey: "string option")

datatype PresignedUrl = SignedUrl (command: S3Command) (expiresIn: nat)

definition getSignedUrl :: "S3Command \<Rightarrow> nat \<Rightarrow> error + PresignedUrl" where
  "getSignedUrl cmd secs =
     (case cmd of
        PutObjectCommand bucket key contentType \<Rightarrow>
          if truthy bucket
          then (if key = [] then Inl (SignerError ''Key'') else Inr (SignedUrl cmd secs))
          else Inl (SignerError ''Bucket'')
      | GetObjectCommand bucket key \<Rightarrow>
          if truthy bucket
          then (if truthy key then Inr (SignedUrl cmd secs) else Inl (SignerError ''Key''))
          else Inl (SignerError ''Bucket''))"

text \<open>s3.presign.ts\<close>

definition generateDownloadUrl ::
  "string option \<Rightarrow> string option \<Rightarrow> error + PresignedUrl" where
  "generateDownloadUrl bucket key = getSignedUrl (GetObjectCommand bucket key) 300"


section \<open>Jobs: entity, table and queue\<close>

datatype DocumentType = EXPENSE | HR

fun documentTypeName :: "DocumentType \<Rightarrow> string" where
  "documentTypeName EXPENSE = ''EXPENSE''"
| "documentTypeName HR = ''HR''"

text \<open>
  jobs.entity.ts. The two date columns are written by the ORM and read by no operation
  below; they are left out. The primary key is \<open>id'\<close>.
\<close>

record Job =
  id' :: string
  userId :: string
  inputFileKey :: string
  inputFileType :: string
  documentType :: DocumentType
  status :: string
  outputFileKey :: "string option"
  errorMessage :: "string option"

text \<open>Object literals (response bodies, message payloads): fields in the order written.\<close>

datatype json = JString string | JNumber nat | JUrl PresignedUrl

type_synonym jsobject = "(string \<times> json) list"

text \<open>
  The state that the service works on: the rows of table \<^verbatim>\<open>jobs\<close> and the bodies of the
  messages sent to the queue, oldest first.
\<close>

record State =
  jobs :: "Job list"
  queue :: "jsobject list"

text \<open>
  The lengths that jobs.entity.ts declares for its columns; the columns declared without
  length are not bounded.
\<close>

definition fitsColumns :: "Job \<Rightarrow> bool" where
  "fitsColumns j =
     (length (id' j) \<le> 36 \<and> length (userId j) \<le> 36 \<and> length (inputFileType j) \<le> 20 \<and>
      length (documentTypeName (documentType j)) \<le> 20 \<and> length (status j) \<le> 20)"

text \<open>
  The repository operations used by the service. \<^verbatim>\<open>findOne\<close> returns the first row that
  satisfies the \<^verbatim>\<open>where\<close> clause or null. \<^verbatim>\<open>save\<close> raises when a value of the entity is
  longer than its column, and then writes nothing; otherwise it inserts the entity, or
  overwrites the row that has its primary key. (On an existing key the ORM keeps the
  columns that the entity leaves undefined; the row is replaced as a whole here, which
  differs only when the generator repeats a stored id and that row has one of the two
  optional columns set.) \<^verbatim>\<open>update\<close> changes the row with the given primary key and does
  nothing when there is none.
\<close>

definition repo_findOne :: "(Job \<Rightarrow> bool) \<Rightarrow> Job list \<Rightarrow> Job option" where
  "repo_findOne wh rows = find wh rows"

definition upsert :: "Job \<Rightarrow> Job list \<Rightarrow> Job list" where
  "upsert j rows =
     (if id' j \<in> set (map id' rows)
      then map (\<lambda>r. if id' r = id' j then j else r) rows
      else rows @ [j])"

definition repo_save :: "Job \<Rightarrow> Job list \<Rightarrow> error + Job list" where
  "repo_save j rows = (if fitsColumns j then Inr (upsert j rows) else Inl QueryFailedError)"

definition repo_update :: "string \<Rightarrow> (Job \<Rightarrow> Job) \<Rightarrow> Job list \<Rightarrow> Job list" where
  "repo_update k f rows = map (\<lambda>r. if id' r = k then f r else r) rows"

text \<open>sqs.producer.ts: the payload is serialised and sent.\<close>

definition sendJobMessage :: "string \<Rightarrow> string \<Rightarrow> string \<Rightarrow> State \<Rightarrow> State" where
  "sendJobMessage jobId key docType s =
     s\<lparr>queue := queue s @
        [[(''jobId'', JString jobId), (''inputFileKey'', JString key),
          (''documentType'', JString docType)]]\<rparr>"

section \<open>JobsService\<close>

text \<open>
  \<open>newId\<close> is the value that the call of \<^verbatim>\<open>uuid()\<close> returns. The first definition is the
  entity that \<^verbatim>\<open>createJob\<close> builds before it saves it. An error raised by \<^verbatim>\<open>save\<close> leaves
  \<^verbatim>\<open>createJob\<close> before the message is sent.
\<close>

definition createJob_entity :: "string \<Rightarrow> string option \<Rightarrow> string \<Rightarrow> DocumentType \<Rightarrow> Job" where
  "createJob_entity newId uid key docType =
     (let extension = orElse (pop (split_on CHR ''.'' key)) ''unknown''
      in \<lparr>id' = newId, userId = orElse uid ''guest'', inputFileKey = key,
          inputFileType = extension, documentType = docType, status = ''PENDING'',
          outputFileKey = None, errorMessage = None\<rparr>)"

definition createJob ::
  "string \<Rightarrow> string option \<Rightarrow> string \<Rightarrow> DocumentType \<Rightarrow> State \<Rightarrow> (error + Job) \<times> State" where
  "createJob newId uid key docType s =
     (let job = createJob_entity newId uid key docType
      in case repo_save job (jobs s) of
           Inl e \<Rightarrow> (Inl e, s)
         | Inr rows \<Rightarrow>
             (let savedJob = job;
                  s1 = s\<lparr>jobs := rows\<rparr>;
                  s2 = sendJobMessage (id' savedJob) (inputFileKey savedJob)
                         (documentTypeName (documentType savedJob)) s1
              in (Inr savedJob, s2)))"

definition getJobById :: "string \<Rightarrow> string option \<Rightarrow> State \<Rightarrow> Job option" where
  "getJobById jobId uid s =
     (if truthy uid
      then repo_findOne (\<lambda>r. id' r = jobId \<and> Some (userId r) = uid) (jobs s)
      else repo_findOne (\<lambda>r. id' r = jobId) (jobs s))"

text \<open>
  The optional argument \<^verbatim>\<open>extra\<close> of \<^verbatim>\<open>updateJobStatus\<close>; a field that is absent or
  undefined is \<open>None\<close> and is not written.
\<close>

datatype Extra = Extra (extra_outputFileKey: "string option") (extra_errorMessage: "string option")

definition spread :: "Extra option \<Rightarrow> Job \<Rightarrow> Job" where
  "spread extra j =
     (case extra of
        None \<Rightarrow> j
      | Some (Extra ok em) \<Rightarrow>
          (let j1 = (case ok of None \<Rightarrow> j | Some k \<Rightarrow> j\<lparr>outputFileKey := Some k\<rparr>)
           in (case em of None \<Rightarrow> j1 | Some m \<Rightarrow> j1\<lparr>errorMessage := Some m\<rparr>)))"

definition updateJobStatus :: "string \<Rightarrow> string \<Rightarrow> Extra option \<Rightarrow> State \<Rightarrow> State" where
  "updateJobStatus jobId newStatus extra s =
     s\<lparr>jobs := repo_update jobId (\<lambda>r. spread extra (r\<lparr>status := newStatus\<rparr>)) (jobs s)\<rparr>"

section \<open>JobsController\<close>

text \<open>
  The handlers get the user id that the guard put on the request (\<^verbatim>\<open>req.user.userId\<close>),
  the route parameter and, for downloads, the bucket of the environment. The controller's
  method \<^verbatim>\<open>createJob\<close> is \<open>createJob_handler\<close>, the service's method has the plain name.
  No handler catches an error: what the service or the signer raises is the handler's
  result.
\<close>

definition createJob_handler ::
  "string \<Rightarrow> string option \<Rightarrow> string \<Rightarrow> DocumentType \<Rightarrow> State \<Rightarrow>
     (error + jsobject) \<times> State" where
  "createJob_handler newId uid key docType s =
     (case createJob newId uid key docType s of
        (Inl e, s') \<Rightarrow> (Inl e, s')
      | (Inr job, s') \<Rightarrow>
          (Inr [(''jobId'', JString (id' job)), (''status'', JString (status job))], s'))"

definition createGuestJob ::
  "string \<Rightarrow> string \<Rightarrow> DocumentType \<Rightarrow> State \<Rightarrow> (error + jsobject) \<times> State" where
  "createGuestJob newId key docType s =
     (case createJob newId None key docType s of
        (Inl e, s') \<Rightarrow> (Inl e, s')
      | (Inr job, s') \<Rightarrow>
          (Inr [(''jobId'', JString (id' job)), (''status'', JString (status job))], s'))"

definition getJobStatus :: "string option \<Rightarrow> string \<Rightarrow> State \<Rightarrow> jsobject" where
  "getJobStatus uid jobId s =
     (case getJobById jobId uid s of
        None \<Rightarrow> [(''statusCode'', JNumber 404), (''message'', JString ''Job not found'')]
      | Some job \<Rightarrow>
          if status job = ''FAILED''
          then [(''jobId'', JString (id' job)), (''status'', JString (status job)),
                (''error'', JString (orElse (errorMessage job) ''Processing failed''))]
          else [(''jobId'', JString (id' job)), (''status'', JString (status job))])"

definition getGuestJobStatus :: "string \<Rightarrow> State \<Rightarrow> jsobject" where
  "getGuestJobStatus jobId s =
     (case getJobById jobId None s of
        None \<Rightarrow> [(''statusCode'', JNumber 404), (''message'', JString ''Job not found'')]
      | Some job \<Rightarrow>
          if status job = ''FAILED''
          then [(''jobId'', JString (id' job)), (''status'', JString (status job)),
                (''error'', JString (orElse (errorMessage job) ''Processing failed''))]
          else [(''jobId'', JString (id' job)), (''status'', JString (status job))])"

definition downloadJobResult ::
  "string option \<Rightarrow> string option \<Rightarrow> string \<Rightarrow> State \<Rightarrow> error + jsobject" where
  "downloadJobResult bucket uid jobId s =
     (case getJobById jobId uid s of
        None \<Rightarrow> Inr [(''statusCode'', JNumber 404), (''message'', JString ''Job not found'')]
      | Some job \<Rightarrow>
          if status job = ''PROCESSING'' \<or> status job = ''PENDING''
          then Inr [(''statusCode'', JNumber 202), (''status'', JString (status job)),
                    (''message'', JString ''Document is still being processed'')]
          else if status job = ''FAILED''
          then Inr [(''statusCode'', JNumber 400), (''status'', JString ''FAILED''),
                    (''error'', JString (orElse (errorMessage job) ''Processing failed''))]
          else (case generateDownloadUrl bucket (outputFileKey job) of
                  Inl e \<Rightarrow> Inl e
                | Inr downloadUrl \<Rightarrow>
                    Inr [(''statusCode'', JNumber 200), (''status'', JString ''COMPLETED''),
                         (''downloadUrl'', JUrl downloadUrl)]))"

definition downloadGuestJobResult ::
  "string option \<Rightarrow> string \<Rightarrow> State \<Rightarrow> error + jsobject" where
  "downloadGuestJobResult bucket jobId s =
     (case getJobById jobId None s of
        None \<Rightarrow> Inr [(''statusCode'', JNumber 404), (''message'', JString ''Job not found'')]
      | Some job \<Rightarrow>
          if status job = ''PROCESSING'' \<or> status job = ''PENDING''
          then Inr [(''statusCode'', JNumber 202), (''status'', JString (status job)),
                    (''message'', JString ''Document is still being processed'')]
          else if status job = ''FAILED''
          then Inr [(''statusCode'', JNumber 400), (''status'', JString ''FAILED''),
                    (''error'', JString (orElse (errorMessage job) ''Processing failed''))]
          else (case generateDownloadUrl bucket (outputFileKey job) of
                  Inl e \<Rightarrow> Inl e
                | Inr downloadUrl \<Rightarrow>
                    Inr [(''statusCode'', JNumber 200), (''status'', JString ''COMPLETED''),
                         (''downloadUrl'', JUrl downloadUrl)]))"

section \<open>Request validation\<close>

text \<open>
  create-job.dto.ts: \<^verbatim>\<open>inputFileKey\<close> is a string and not empty, \<^verbatim>\<open>documentType\<close> is one
  of the two listed values. The body is the parsed JSON object of the request.
\<close>

fun isNonEmptyString :: "json option \<Rightarrow> string option" where
  "isNonEmptyString (Some (JString v)) = (if v = [] then None else Some v)"
| "isNonEmptyString _ = None"

fun isInDocumentTypes :: "json option \<Rightarrow> DocumentType option" where
  "isInDocumentTypes (Some (JString v)) =
     (if v = ''EXPENSE'' then Some EXPENSE else if v = ''HR'' then Some HR else None)"
| "isInDocumentTypes _ = None"

definition validateCreateJobDto :: "jsobject \<Rightarrow> error + (string \<times> DocumentType)" where
  "validateCreateJobDto body =
     (case (isNonEmptyString (map_of body ''inputFileKey''),
            isInDocumentTypes (map_of body ''documentType'')) of
        (Some key, Some docType) \<Rightarrow> Inr (key, docType)
      | (None, Some _) \<Rightarrow> Inl (ValidationError [''inputFileKey''])
      | (Some _, None) \<Rightarrow> Inl (ValidationError [''documentType''])
      | (None, None) \<Rightarrow> Inl (ValidationError [''inputFileKey'', ''documentType'']))"

text \<open>
  Modelled from the spec: the request pipeline in front of the two submission handlers
  (the bootstrap file that installs the validation pipe is not among the sources). A body
  that fails the checks of the DTO is rejected with a validation error before the handler
  runs; otherwise the handler runs on the validated fields.
\<close>

definition submitJob ::
  "string \<Rightarrow> string option \<Rightarrow> jsobject \<Rightarrow> State \<Rightarrow> (error + jsobject) \<times> State" where
  "submitJob newId uid body s =
     (case validateCreateJobDto body of
        Inl e \<Rightarrow> (Inl e, s)
      | Inr (key, docType) \<Rightarrow> createJob_handler newId uid key docType s)"

text \<open>
  Modelled from the spec: the same pipeline in front of the guest submission handler.
\<close>

definition submitGuestJob ::
  "string \<Rightarrow> jsobject \<Rightarrow> State \<Rightarrow> (error + jsobject) \<times> State" where
  "submitGuestJob newId body s =
     (case validateCreateJobDto body of
        Inl e \<Rightarrow> (Inl e, s)
      | Inr (key, docType) \<Rightarrow> createGuestJob newId key docType s)"

section \<open>Sequences of status updates\<close>



section \<open>Predicates of the specification\<close>

text \<open>The identity that a request resolves to: its user id, or the anonymous sentinel.\<close>

definition spec_resolveIdentity :: "string option \<Rightarrow> string" where
  "spec_resolveIdentity uid = orElse uid ''guest''"

text \<open>
  The ownership check as the specification words it: the identity owns the job, or the
  job belongs to the anonymous sentinel.
\<close>

definition spec_checkOwnership :: "Job \<Rightarrow> string \<Rightarrow> bool" where
  "spec_checkOwnership job identity = (userId job = identity \<or> userId job = ''guest'')"

text \<open>
  The output key is set exactly in status COMPLETED, the error message exactly in status
  FAILED.
\<close>

definition jobInvariant :: "Job \<Rightarrow> bool" where
  "jobInvariant j =
     ((truthy (outputFileKey j) = (status j = ''COMPLETED'')) \<and>
      (truthy (errorMessage j) = (status j = ''FAILED'')))"

definition terminal :: "string \<Rightarrow> bool" where
  "terminal st = (st = ''COMPLETED'' \<or> st = ''FAILED'')"

text \<open>
  The three calls that the planned worker makes: claiming a job, completing it with its
  output key, failing it with its diagnostic.
\<close>

definition lifecycleCall :: "string \<Rightarrow> Extra option \<Rightarrow> bool" where
  "lifecycleCall newStatus extra =
     (case extra of
        None \<Rightarrow> newStatus = ''PROCESSING''
      | Some (Extra ok em) \<Rightarrow>
          (newStatus = ''PROCESSING'' \<and> ok = None \<and> em = None) \<or>
          (newStatus = ''COMPLETED'' \<and> truthy ok \<and> em = None) \<or>
          (newStatus = ''FAILED'' \<and> ok = None \<and> truthy em))"

text \<open>No stored job with the given id has reached a terminal status.\<close>

definition inFlight :: "string \<Rightarrow> State \<Rightarrow> bool" where
  "inFlight jobId s = list_all (\<lambda>j. id' j = jobId \<longrightarrow> \<not> terminal (status j)) (jobs s)"

text \<open>Reading a string field of an object literal.\<close>

definition stringField :: "jsobject \<Rightarrow> string \<Rightarrow> string option" where
  "stringField obj k = (case map_of obj k of Some (JString v) \<Rightarrow> Some v | _ \<Rightarrow> None)"

section \<open>Basic facts\<close>

lemma split_from_nonempty: "split_from c p s \<noteq> []"
  by (induction s arbitrary: p) auto

lemma split_from_no_separator: "c \<notin> set s \<Longrightarrow> split_from c p s = [p @ s]"
  by (induction s arbitrary: p) auto

lemma last_split_from:
  "last (split_from c p s) =
     (if c \<in> set s then rev (takeWhile (\<lambda>x. x \<noteq> c) (rev s)) else p @ s)"
proof (induction s arbitrary: p)
  case Nil
  show ?case by simp
next
  case (Cons x xs)
  show ?case
    using Cons.IH split_from_nonempty [of c "[]" xs]
    by (auto simp: takeWhile_append)
qed

lemma find_key_distinct:
  "distinct (map f rows) \<Longrightarrow>
     (find (\<lambda>r. f r = k \<and> P r) rows = Some j) = (j \<in> set rows \<and> f j = k \<and> P j)"
proof (induction rows)
  case Nil
  show ?case by simp
next
  case (Cons r rows)
  then show ?case by (cases "f r = k") (auto simp: image_iff)
qed

lemma find_overwritten:
  "id' j = k \<Longrightarrow>
     find (\<lambda>r. id' r = k \<and> P r) (map (\<lambda>r. if id' r = k then j else r) rows) =
       (if k \<in> id' ` set rows \<and> P j then Some j else None)"
  by (induction rows) auto

lemma find_appended:
  "find P (xs @ ys) = (case find P xs of None \<Rightarrow> find P ys | Some x \<Rightarrow> Some x)"
  by (induction xs) auto

lemma find_upsert:
  "find (\<lambda>r. id' r = id' j \<and> P r) (upsert j rows) = (if P j then Some j else None)"
proof (cases "id' j \<in> id' ` set rows")
  case True
  then show ?thesis
    using find_overwritten [of j "id' j" P rows] by (simp add: upsert_def)
next
  case False
  then have "find (\<lambda>r. id' r = id' j \<and> P r) rows = None"
    by (auto simp: find_None_iff image_iff)
  with False show ?thesis by (simp add: upsert_def find_appended)
qed

lemma upsert_ids:
  "map id' (upsert j rows) =
     (if id' j \<in> set (map id' rows) then map id' rows else map id' rows @ [id' j])"
proof -
  have "map (id' \<circ> (\<lambda>r. if id' r = k then j else r)) rows = map id' rows" if "id' j = k" for k
    using that by (induction rows) auto
  then show ?thesis by (simp add: upsert_def)
qed

lemma getJobById_not_truthy: "\<not> truthy uid \<Longrightarrow> getJobById jobId uid s = getJobById jobId None s"
  by (simp add: getJobById_def truthy_def)

lemma createJob_entity_fields:
  "id' (createJob_entity newId uid key docType) = newId"
  "userId (createJob_entity newId uid key docType) = orElse uid ''guest''"
  "inputFileKey (createJob_entity newId uid key docType) = key"
  "inputFileType (createJob_entity newId uid key docType) =
     orElse (pop (split_on CHR ''.'' key)) ''unknown''"
  "documentType (createJob_entity newId uid key docType) = docType"
  "status (createJob_entity newId uid key docType) = ''PENDING''"
  "outputFileKey (createJob_entity newId uid key docType) = None"
  "errorMessage (createJob_entity newId uid key docType) = None"
  by (simp_all add: createJob_entity_def Let_def)


lemma createJob_saved:
  assumes "fitsColumns (createJob_entity newId uid key docType)"
  shows "createJob newId uid key docType s =
           (Inr (createJob_entity newId uid key docType),
            s\<lparr>jobs := upsert (createJob_entity newId uid key docType) (jobs s),
              queue := queue s @
                [[(''jobId'', JString newId), (''inputFileKey'', JString key),
                  (''documentType'', JString (documentTypeName docType))]]\<rparr>)"
  using assms
  by (simp add: createJob_def repo_save_def sendJobMessage_def Let_def createJob_entity_fields)

lemma createJob_raises:
  assumes "\<not> fitsColumns (createJob_entity newId uid key docType)"
  shows "createJob newId uid key docType s = (Inl QueryFailedError, s)"
  using assms by (simp add: createJob_def repo_save_def Let_def)

lemma createJob_Inr:
  assumes "createJob newId uid key docType s = (Inr job, s')"
  shows "job = createJob_entity newId uid key docType" and "fitsColumns job"
    and "jobs s' = upsert job (jobs s)"
    and "queue s' = queue s @
           [[(''jobId'', JString newId), (''inputFileKey'', JString key),
             (''documentType'', JString (documentTypeName docType))]]"
proof -
  have fits: "fitsColumns (createJob_entity newId uid key docType)"
    using assms createJob_raises [of newId uid key docType s] by (cases "fitsColumns (createJob_entity newId uid key docType)") auto
  from createJob_saved [OF fits, of s] assms
  show "job = createJob_entity newId uid key docType" and "jobs s' = upsert job (jobs s)"
    and "queue s' = queue s @
           [[(''jobId'', JString newId), (''inputFileKey'', JString key),
             (''documentType'', JString (documentTypeName docType))]]"
    by auto
  with fits show "fitsColumns job" by simp
qed

lemma createJob_jobs:
  "jobs (snd (createJob newId uid key docType s)) =
     (if fitsColumns (createJob_entity newId uid key docType)
      then upsert (createJob_entity newId uid key docType) (jobs s) else jobs s)"
  by (simp add: createJob_saved createJob_raises)


lemma spread_fields:
  "id' (spread extra j) = id' j"
  "status (spread extra j) = status j"
  "userId (spread extra j) = userId j"
  by (auto simp: spread_def Let_def split: option.splits Extra.splits)

lemma jobs_updateJobStatus:
  "jobs (updateJobStatus k st extra s) =
     map (\<lambda>r. if id' r = k then spread extra (r\<lparr>status := st\<rparr>) else r) (jobs s)"
  by (simp add: updateJobStatus_def repo_update_def)

lemma distinct_ids_kept:
  assumes "distinct (map id' (jobs s))"
  shows "distinct (map id' (jobs (snd (createJob newId uid key docType s))))"
    and "distinct (map id' (jobs (updateJobStatus jobId newStatus extra s)))"
proof -
  show "distinct (map id' (jobs (snd (createJob newId uid key docType s))))"
    using assms by (simp add: createJob_jobs upsert_ids createJob_entity_fields)
  have "map id' (map (\<lambda>r. if id' r = jobId then spread extra (r\<lparr>status := newStatus\<rparr>) else r)
      rows) = map id' rows" for rows
    by (induction rows) (auto simp: spread_fields)
  then have "map id' (jobs (updateJobStatus jobId newStatus extra s)) = map id' (jobs s)"
    by (simp only: jobs_updateJobStatus)
  with assms show "distinct (map id' (jobs (updateJobStatus jobId newStatus extra s)))"
    by (simp only:)
qed

lemma downloadGuestJobResult_eq:
  "\<not> truthy uid \<Longrightarrow> downloadGuestJobResult bucket jobId s = downloadJobResult bucket uid jobId s"
  by (simp add: downloadGuestJobResult_def downloadJobResult_def getJobById_not_truthy [of uid])

lemma getGuestJobStatus_eq:
  "\<not> truthy uid \<Longrightarrow> getGuestJobStatus jobId s = getJobStatus uid jobId s"
  by (simp add: getGuestJobStatus_def getJobStatus_def getJobById_not_truthy [of uid])

section \<open>C1: which reads return the job\<close>

text \<open>
  C1 as stated fails in both directions. A job owned by the sentinel is not returned to a
  request that carries a user id, although the ownership check of the specification passes;
  a job owned by a user is returned to a request without user id, although the check fails.
\<close>

theorem getJobById_ownership_counterexample:
  "spec_checkOwnership
     \<lparr>id' = ''j1'', userId = ''guest'', inputFileKey = ''uploads/t-a.pdf'',
      inputFileType = ''pdf'', documentType = EXPENSE, status = ''PENDING'',
      outputFileKey = None, errorMessage = None\<rparr>
     (spec_resolveIdentity (Some ''alice'')) \<and>
   getJobById ''j1'' (Some ''alice'')
     \<lparr>jobs = [\<lparr>id' = ''j1'', userId = ''guest'', inputFileKey = ''uploads/t-a.pdf'',
               inputFileType = ''pdf'', documentType = EXPENSE, status = ''PENDING'',
               outputFileKey = None, errorMessage = None\<rparr>],
      queue = []\<rparr> = None \<and>
   \<not> spec_checkOwnership
     \<lparr>id' = ''j2'', userId = ''alice'', inputFileKey = ''uploads/t-b.pdf'',
      inputFileType = ''pdf'', documentType = HR, status = ''PENDING'',
      outputFileKey = None, errorMessage = None\<rparr>
     (spec_resolveIdentity None) \<and>
   getJobById ''j2'' None
     \<lparr>jobs = [\<lparr>id' = ''j2'', userId = ''alice'', inputFileKey = ''uploads/t-b.pdf'',
               inputFileType = ''pdf'', documentType = HR, status = ''PENDING'',
               outputFileKey = None, errorMessage = None\<rparr>],
      queue = []\<rparr> =
   Some \<lparr>id' = ''j2'', userId = ''alice'', inputFileKey = ''uploads/t-b.pdf'',
      inputFileType = ''pdf'', documentType = HR, status = ''PENDING'',
      outputFileKey = None, errorMessage = None\<rparr>"
  by (simp add: spec_checkOwnership_def spec_resolveIdentity_def orElse_def getJobById_def
        truthy_def repo_findOne_def)

text \<open>
  C1 (amended): with unique primary keys, \<^verbatim>\<open>getJobById\<close> returns the stored job with the
  given id exactly when the request carries no user id (absent or empty, the guest routes)
  or the user id it carries equals the job's \<^verbatim>\<open>userId\<close>; otherwise it returns null. A null
  result is answered by the status and download handlers with status code 404 and
  ``Job not found'', never with a separate forbidden answer.
\<close>

theorem getJobById_visibility:
  assumes "distinct (map id' (jobs s))"
  shows "(getJobById jobId uid s = Some j) =
           (j \<in> set (jobs s) \<and> id' j = jobId \<and> (\<not> truthy uid \<or> uid = Some (userId j))) \<and>
         (getJobById jobId uid s = None \<longrightarrow>
            getJobStatus uid jobId s =
              [(''statusCode'', JNumber 404), (''message'', JString ''Job not found'')] \<and>
            downloadJobResult bucket uid jobId s =
              Inr [(''statusCode'', JNumber 404), (''message'', JString ''Job not found'')])"
proof -
  have a: "(find (\<lambda>r. id' r = jobId \<and> Some (userId r) = uid) (jobs s) = Some j) =
      (j \<in> set (jobs s) \<and> id' j = jobId \<and> Some (userId j) = uid)"
    using assms by (rule find_key_distinct)
  have b: "(find (\<lambda>r. id' r = jobId \<and> True) (jobs s) = Some j) =
      (j \<in> set (jobs s) \<and> id' j = jobId \<and> True)"
    using assms by (rule find_key_distinct)
  have "(getJobById jobId uid s = Some j) =
           (j \<in> set (jobs s) \<and> id' j = jobId \<and> (\<not> truthy uid \<or> uid = Some (userId j)))"
    using a b by (auto simp: getJobById_def repo_findOne_def)
  then show ?thesis
    by (simp add: getJobStatus_def downloadJobResult_def)
qed

theorem getJobById_visibility_witness:
  "distinct (map id' (jobs
     \<lparr>jobs = [\<lparr>id' = ''j1'', userId = ''guest'', inputFileKey = ''uploads/t-a.pdf'',
               inputFileType = ''pdf'', documentType = EXPENSE, status = ''PENDING'',
               outputFileKey = None, errorMessage = None\<rparr>,
              \<lparr>id' = ''j2'', userId = ''alice'', inputFileKey = ''uploads/t-b.pdf'',
               inputFileType = ''pdf'', documentType = HR, status = ''PENDING'',
               outputFileKey = None, errorMessage = None\<rparr>],
      queue = []\<rparr>)) \<and>
   getJobById ''j2'' (Some ''alice'')
     \<lparr>jobs = [\<lparr>id' = ''j1'', userId = ''guest'', inputFileKey = ''uploads/t-a.pdf'',
               inputFileType = ''pdf'', documentType = EXPENSE, status = ''PENDING'',
               outputFileKey = None, errorMessage = None\<rparr>,
              \<lparr>id' = ''j2'', userId = ''alice'', inputFileKey = ''uploads/t-b.pdf'',
               inputFileType = ''pdf'', documentType = HR, status = ''PENDING'',
               outputFileKey = None, errorMessage = None\<rparr>],
      queue = []\<rparr> =
   Some \<lparr>id' = ''j2'', userId = ''alice'', inputFileKey = ''uploads/t-b.pdf'',
      inputFileType = ''pdf'', documentType = HR, status = ''PENDING'',
      outputFileKey = None, errorMessage = None\<rparr>"
proof -
  let ?s = "\<lparr>jobs = [\<lparr>id' = ''j1'', userId = ''guest'', inputFileKey = ''uploads/t-a.pdf'',
               inputFileType = ''pdf'', documentType = EXPENSE, status = ''PENDING'',
               outputFileKey = None, errorMessage = None\<rparr>,
              \<lparr>id' = ''j2'', userId = ''alice'', inputFileKey = ''uploads/t-b.pdf'',
               inputFileType = ''pdf'', documentType = HR, status = ''PENDING'',
               outputFileKey = None, errorMessage = None\<rparr>],
      queue = []\<rparr>"
  have d: "distinct (map id' (jobs ?s))" by simp
  from getJobById_visibility [OF d, of "''j2''" "Some ''alice''" _ None] d
  show ?thesis by (simp add: truthy_def)
qed

section \<open>C2: jobs submitted without a principal\<close>

text \<open>
  C2 as stated fails: the job created without a principal is stored for the sentinel, and the
  authenticated status route answers 404 for it to user \<open>alice\<close>.
\<close>

theorem guest_job_authenticated_read_counterexample:
  "fst (createJob ''j1'' None ''uploads/t-a.pdf'' EXPENSE \<lparr>jobs = [], queue = []\<rparr>) =
     Inr \<lparr>id' = ''j1'', userId = ''guest'', inputFileKey = ''uploads/t-a.pdf'',
          inputFileType = ''pdf'', documentType = EXPENSE, status = ''PENDING'',
          outputFileKey = None, errorMessage = None\<rparr> \<and>
   getJobStatus (Some ''alice'') ''j1''
     (snd (createJob ''j1'' None ''uploads/t-a.pdf'' EXPENSE \<lparr>jobs = [], queue = []\<rparr>)) =
     [(''statusCode'', JNumber 404), (''message'', JString ''Job not found'')]"
  by (simp add: createJob_def createJob_entity_def Let_def sendJobMessage_def repo_save_def
        fitsColumns_def upsert_def orElse_def pop_def split_on_def getJobStatus_def
        getJobById_def truthy_def repo_findOne_def)

text \<open>
  C2 (amended): a job created without a principal (user id absent or empty) is stored with
  \<^verbatim>\<open>userId\<close> equal to the sentinel \<^verbatim>\<open>guest\<close>. A later status read of its id through the guest
  route, which passes no user id, succeeds. Through the authenticated route the job is found
  only for a user id equal to the sentinel; for every other user id the answer is 404.
\<close>

theorem createJob_guest_readable:
  assumes "\<not> truthy uid" and "createJob newId uid key docType s = (Inr job, s')"
  shows "userId job = ''guest'' \<and>
         getJobById newId None s' = Some job \<and>
         getGuestJobStatus newId s' =
           [(''jobId'', JString newId), (''status'', JString ''PENDING'')] \<and>
         (truthy reader \<longrightarrow>
            (getJobById newId reader s' = Some job) = (reader = Some ''guest'') \<and>
            (reader \<noteq> Some ''guest'' \<longrightarrow>
               getJobStatus reader newId s' =
                 [(''statusCode'', JNumber 404), (''message'', JString ''Job not found'')]))"
proof -
  note created = createJob_Inr [OF assms(2)]
  have owner: "userId job = ''guest''"
    using assms(1) created(1)
    by (auto simp: createJob_entity_fields orElse_def truthy_def split: option.splits)
  have ident: "id' job = newId" and st: "status job = ''PENDING''"
    using created(1) by (simp_all add: createJob_entity_fields)
  have any: "getJobById newId None s' = Some job"
    using find_upsert [of job "\<lambda>r. True" "jobs s"] ident created(3)
    by (simp add: getJobById_def truthy_def repo_findOne_def)
  have auth: "getJobById newId reader s' = (if reader = Some ''guest'' then Some job else None)"
    if "truthy reader"
    using that find_upsert [of job "\<lambda>r. Some (userId r) = reader" "jobs s"] ident owner created(3)
    by (auto simp: getJobById_def repo_findOne_def)
  show ?thesis
    using owner any auth ident st
    by (simp add: getGuestJobStatus_def getJobStatus_def)
qed

theorem createJob_guest_readable_witness:
  "\<not> truthy None \<and>
   createJob ''j1'' None ''uploads/t-a.pdf'' EXPENSE \<lparr>jobs = [], queue = []\<rparr> =
     (Inr \<lparr>id' = ''j1'', userId = ''guest'', inputFileKey = ''uploads/t-a.pdf'',
           inputFileType = ''pdf'', documentType = EXPENSE, status = ''PENDING'',
           outputFileKey = None, errorMessage = None\<rparr>,
      \<lparr>jobs = [\<lparr>id' = ''j1'', userId = ''guest'', inputFileKey = ''uploads/t-a.pdf'',
                inputFileType = ''pdf'', documentType = EXPENSE, status = ''PENDING'',
                outputFileKey = None, errorMessage = None\<rparr>],
       queue = [[(''jobId'', JString ''j1''), (''inputFileKey'', JString ''uploads/t-a.pdf''),
                 (''documentType'', JString ''EXPENSE'')]]\<rparr>) \<and>
   getGuestJobStatus ''j1''
     \<lparr>jobs = [\<lparr>id' = ''j1'', userId = ''guest'', inputFileKey = ''uploads/t-a.pdf'',
               inputFileType = ''pdf'', documentType = EXPENSE, status = ''PENDING'',
               outputFileKey = None, errorMessage = None\<rparr>],
      queue = [[(''jobId'', JString ''j1''), (''inputFileKey'', JString ''uploads/t-a.pdf''),
                (''documentType'', JString ''EXPENSE'')]]\<rparr> =
     [(''jobId'', JString ''j1''), (''status'', JString ''PENDING'')] \<and>
   truthy (Some ''alice'') \<and> Some ''alice'' \<noteq> Some ''guest'' \<and>
   getJobStatus (Some ''alice'') ''j1''
     \<lparr>jobs = [\<lparr>id' = ''j1'', userId = ''guest'', inputFileKey = ''uploads/t-a.pdf'',
               inputFileType = ''pdf'', documentType = EXPENSE, status = ''PENDING'',
               outputFileKey = None, errorMessage = None\<rparr>],
      queue = [[(''jobId'', JString ''j1''), (''inputFileKey'', JString ''uploads/t-a.pdf''),
                (''documentType'', JString ''EXPENSE'')]]\<rparr> =
     [(''statusCode'', JNumber 404), (''message'', JString ''Job not found'')]"
proof -
  have h: "\<not> truthy None" by (simp add: truthy_def)
  have t: "truthy (Some ''alice'')" by (simp add: truthy_def)
  have c: "createJob ''j1'' None ''uploads/t-a.pdf'' EXPENSE \<lparr>jobs = [], queue = []\<rparr> =
     (Inr \<lparr>id' = ''j1'', userId = ''guest'', inputFileKey = ''uploads/t-a.pdf'',
           inputFileType = ''pdf'', documentType = EXPENSE, status = ''PENDING'',
           outputFileKey = None, errorMessage = None\<rparr>,
      \<lparr>jobs = [\<lparr>id' = ''j1'', userId = ''guest'', inputFileKey = ''uploads/t-a.pdf'',
                inputFileType = ''pdf'', documentType = EXPENSE, status = ''PENDING'',
                outputFileKey = None, errorMessage = None\<rparr>],
       queue = [[(''jobId'', JString ''j1''), (''inputFileKey'', JString ''uploads/t-a.pdf''),
                 (''documentType'', JString ''EXPENSE'')]]\<rparr>)"
    by (simp add: createJob_def createJob_entity_def Let_def sendJobMessage_def repo_save_def
          fitsColumns_def upsert_def orElse_def pop_def split_on_def)
  from createJob_guest_readable [OF h c, of "Some ''alice''"] h t c
  show ?thesis by simp
qed

section \<open>C3: output key and error message against status\<close>

lemma lifecycle_step:
  assumes "jobInvariant j" "\<not> terminal (status j)" "lifecycleCall st extra"
  shows "jobInvariant (spread extra (j\<lparr>status := st\<rparr>))"
  using assms
  by (auto simp: jobInvariant_def terminal_def lifecycleCall_def spread_def truthy_def Let_def
        split: option.splits Extra.splits)

text \<open>
  C3 as stated fails: \<^verbatim>\<open>updateJobStatus\<close> writes whatever it is given. Marking a new job
  COMPLETED without extra fields leaves it COMPLETED with no output key.
\<close>

theorem updateJobStatus_invariant_counterexample:
  "jobs (updateJobStatus ''j1'' ''COMPLETED'' None
     (snd (createJob ''j1'' None ''uploads/t-a.pdf'' EXPENSE \<lparr>jobs = [], queue = []\<rparr>))) =
     [\<lparr>id' = ''j1'', userId = ''guest'', inputFileKey = ''uploads/t-a.pdf'',
       inputFileType = ''pdf'', documentType = EXPENSE, status = ''COMPLETED'',
       outputFileKey = None, errorMessage = None\<rparr>] \<and>
   \<not> jobInvariant
     \<lparr>id' = ''j1'', userId = ''guest'', inputFileKey = ''uploads/t-a.pdf'',
      inputFileType = ''pdf'', documentType = EXPENSE, status = ''COMPLETED'',
      outputFileKey = None, errorMessage = None\<rparr>"
  by (simp add: createJob_def createJob_entity_def Let_def sendJobMessage_def repo_save_def
        fitsColumns_def upsert_def orElse_def pop_def split_on_def updateJobStatus_def
        repo_update_def spread_def jobInvariant_def truthy_def)

text \<open>
  C3 (amended): job creation stores a job in status PENDING with neither field set, so it
  keeps the property (output key non-empty exactly in COMPLETED, error message non-empty
  exactly in FAILED) for all stored jobs. A call of \<^verbatim>\<open>updateJobStatus\<close> keeps it when the
  addressed job has not reached a terminal status and the call is one of: PROCESSING with no
  fields, COMPLETED with a non-empty output key only, FAILED with a non-empty error
  message only. The entry point itself accepts every status and every combination of
  extra fields.
\<close>

theorem lifecycle_preserves_jobInvariant:
  assumes "list_all jobInvariant (jobs s)"
  shows "list_all jobInvariant (jobs (snd (createJob newId uid key docType s))) \<and>
         (\<forall>job. fst (createJob newId uid key docType s) = Inr job \<longrightarrow>
            status job = ''PENDING'' \<and> outputFileKey job = None \<and> errorMessage job = None) \<and>
         (lifecycleCall newStatus extra \<and> inFlight jobId s \<longrightarrow>
            list_all jobInvariant (jobs (updateJobStatus jobId newStatus extra s)))"
proof -
  let ?job = "createJob_entity newId uid key docType"
  have new: "jobInvariant ?job"
    by (simp add: createJob_entity_fields jobInvariant_def truthy_def)
  have "list_all jobInvariant (upsert ?job (jobs s))"
    using assms new by (auto simp: upsert_def list_all_iff)
  then have created: "list_all jobInvariant (jobs (snd (createJob newId uid key docType s)))"
    using assms by (simp add: createJob_jobs)
  have updated: "list_all jobInvariant (jobs (updateJobStatus jobId newStatus extra s))"
    if "lifecycleCall newStatus extra" "inFlight jobId s"
    using assms that lifecycle_step [of _ newStatus extra]
    by (auto simp: jobs_updateJobStatus list_all_iff inFlight_def)
  have fields: "status job = ''PENDING'' \<and> outputFileKey job = None \<and> errorMessage job = None"
    if "fst (createJob newId uid key docType s) = Inr job" for job
  proof -
    have "createJob newId uid key docType s = (Inr job, snd (createJob newId uid key docType s))"
      using that by (simp add: prod_eq_iff)
    then have "job = createJob_entity newId uid key docType"
      by (rule createJob_Inr(1))
    then show ?thesis by (simp add: createJob_entity_fields)
  qed
  from created updated fields show ?thesis by blast
qed

theorem lifecycle_preserves_jobInvariant_witness:
  "list_all jobInvariant (jobs \<lparr>jobs = [], queue = []\<rparr>) \<and>
   list_all jobInvariant
     (jobs (snd (createJob ''j1'' None ''uploads/t-a.pdf'' EXPENSE \<lparr>jobs = [], queue = []\<rparr>))) \<and>
   lifecycleCall ''COMPLETED'' (Some (Extra (Some ''outputs/j1-result.xlsx'') None)) \<and>
   inFlight ''j1''
     (snd (createJob ''j1'' None ''uploads/t-a.pdf'' EXPENSE \<lparr>jobs = [], queue = []\<rparr>)) \<and>
   list_all jobInvariant
     (jobs (updateJobStatus ''j1'' ''COMPLETED''
        (Some (Extra (Some ''outputs/j1-result.xlsx'') None))
        (snd (createJob ''j1'' None ''uploads/t-a.pdf'' EXPENSE \<lparr>jobs = [], queue = []\<rparr>))))"
proof -
  let ?s0 = "\<lparr>jobs = [], queue = []\<rparr>"
  let ?s1 = "snd (createJob ''j1'' None ''uploads/t-a.pdf'' EXPENSE ?s0)"
  have h0: "list_all jobInvariant (jobs ?s0)" by simp
  have c: "lifecycleCall ''COMPLETED'' (Some (Extra (Some ''outputs/j1-result.xlsx'') None))"
    by (simp add: lifecycleCall_def truthy_def)
  have f: "inFlight ''j1'' ?s1"
    by (simp add: inFlight_def createJob_def createJob_entity_def Let_def sendJobMessage_def
          repo_save_def fitsColumns_def upsert_def orElse_def pop_def split_on_def terminal_def)
  have h1: "list_all jobInvariant (jobs ?s1)"
    using lifecycle_preserves_jobInvariant [OF h0, of "''j1''" None "''uploads/t-a.pdf''" EXPENSE]
    by simp
  from lifecycle_preserves_jobInvariant [OF h1, of "''j2''" None "''uploads/t-b.pdf''" HR
      "''COMPLETED''" "Some (Extra (Some ''outputs/j1-result.xlsx'') None)" "''j1''"] h0 h1 c f
  show ?thesis by simp
qed

section \<open>C4: updates after a terminal status\<close>



section \<open>C5: the derived input file type\<close>

lemma createJob_inputFileType:
  "inputFileType (createJob_entity newId uid key docType) =
     (let suffix = (if CHR ''.'' \<in> set key
                    then rev (takeWhile (\<lambda>x. x \<noteq> CHR ''.'') (rev key)) else key)
      in if suffix = [] then ''unknown'' else suffix)"
  using last_split_from [of "CHR ''.''" "[]" key] split_from_nonempty [of "CHR ''.''" "[]" key]
  by (simp add: createJob_entity_fields orElse_def pop_def split_on_def Let_def)

lemma createJob_inputFileType_example:
  "createJob newId uid ''uploads/abc-invoice.pdf'' EXPENSE s = (Inr job, s') \<Longrightarrow>
     inputFileType job = ''pdf''"
  using createJob_Inr(1) [of newId uid "''uploads/abc-invoice.pdf''" EXPENSE s job s']
  by (simp add: createJob_inputFileType)

lemma createJob_inputFileType_no_delimiter:
  "CHR ''.'' \<notin> set key \<Longrightarrow> key \<noteq> [] \<Longrightarrow>
     createJob newId uid key docType s = (Inr job, s') \<Longrightarrow> inputFileType job = key"
  using createJob_Inr(1) [of newId uid key docType s job s']
  by (simp add: createJob_inputFileType)

text \<open>
  C5: the claim says that a key without extension delimiter gives the input file type
  \<^verbatim>\<open>unknown\<close>. The code evaluated at the key \<^verbatim>\<open>uploads/abc-invoice\<close>, which contains no
  delimiter, stores the whole key as input file type: \<^verbatim>\<open>split\<close> returns the key as its only
  piece, so the fallback is not reached.
\<close>

theorem createJob_inputFileType_without_extension:
  "CHR ''.'' \<notin> set ''uploads/abc-invoice'' \<and>
   fst (createJob ''j1'' None ''uploads/abc-invoice'' EXPENSE \<lparr>jobs = [], queue = []\<rparr>) =
     Inr \<lparr>id' = ''j1'', userId = ''guest'', inputFileKey = ''uploads/abc-invoice'',
          inputFileType = ''uploads/abc-invoice'', documentType = EXPENSE,
          status = ''PENDING'', outputFileKey = None, errorMessage = None\<rparr>"
  by (simp add: createJob_def createJob_entity_def Let_def sendJobMessage_def repo_save_def
        fitsColumns_def upsert_def orElse_def pop_def split_on_def)

section \<open>C6: what a submission creates and returns\<close>




section \<open>C7: submissions with a document type outside the enumeration\<close>

text \<open>
  C7: a submission whose \<^verbatim>\<open>documentType\<close> is neither EXPENSE nor HR fails on both routes
  with a validation error that names the property, and the state is returned unchanged: no
  job row is created and no message is sent.
\<close>

theorem invalid_documentType_rejected:
  assumes "map_of body ''documentType'' \<noteq> Some (JString ''EXPENSE'')"
    and "map_of body ''documentType'' \<noteq> Some (JString ''HR'')"
  shows "\<exists>props. ''documentType'' \<in> set props \<and>
           submitJob newId uid body s = (Inl (ValidationError props), s) \<and>
           submitGuestJob newId body s = (Inl (ValidationError props), s)"
proof -
  have "isInDocumentTypes (map_of body ''documentType'') = None"
    using assms by (cases "map_of body ''documentType''" rule: isInDocumentTypes.cases) auto
  then show ?thesis
    by (cases "isNonEmptyString (map_of body ''inputFileKey'')")
       (simp_all add: submitJob_def submitGuestJob_def validateCreateJobDto_def)
qed

theorem invalid_documentType_rejected_witness:
  "map_of [(''inputFileKey'', JString ''uploads/t-a.pdf''), (''documentType'', JString ''INVOICE'')]
     ''documentType'' \<noteq> Some (JString ''EXPENSE'') \<and>
   map_of [(''inputFileKey'', JString ''uploads/t-a.pdf''), (''documentType'', JString ''INVOICE'')]
     ''documentType'' \<noteq> Some (JString ''HR'') \<and>
   submitJob ''j1'' None
     [(''inputFileKey'', JString ''uploads/t-a.pdf''), (''documentType'', JString ''INVOICE'')]
     \<lparr>jobs = [], queue = []\<rparr> =
     (Inl (ValidationError [''documentType'']), \<lparr>jobs = [], queue = []\<rparr>)"
proof -
  let ?body = "[(''inputFileKey'', JString ''uploads/t-a.pdf''),
                (''documentType'', JString ''INVOICE'')]"
  have a: "map_of ?body ''documentType'' \<noteq> Some (JString ''EXPENSE'')" by simp
  have b: "map_of ?body ''documentType'' \<noteq> Some (JString ''HR'')" by simp
  from invalid_documentType_rejected [OF a b, of "''j1''" None "\<lparr>jobs = [], queue = []\<rparr>"]
  obtain props where
    "submitJob ''j1'' None ?body \<lparr>jobs = [], queue = []\<rparr> =
       (Inl (ValidationError props), \<lparr>jobs = [], queue = []\<rparr>)"
    by blast
  moreover have "fst (submitJob ''j1'' None ?body \<lparr>jobs = [], queue = []\<rparr>) =
      Inl (ValidationError [''documentType''])"
    by (simp add: submitJob_def validateCreateJobDto_def)
  ultimately show ?thesis using a b by simp
qed

section \<open>C8: the download outcome follows the status\<close>

text \<open>
  C8 as stated fails for a COMPLETED job without output key, a state that
  \<^verbatim>\<open>updateJobStatus\<close> reaches: the job is visible, the handler passes the missing key to the
  signer, the signer raises, and the handler returns no URL. The same happens for a
  COMPLETED job with output key when no bucket is configured.
\<close>

theorem download_outcome_counterexample:
  "getJobById ''j1'' None
     \<lparr>jobs = [\<lparr>id' = ''j1'', userId = ''guest'', inputFileKey = ''uploads/t-a.pdf'',
               inputFileType = ''pdf'', documentType = EXPENSE, status = ''COMPLETED'',
               outputFileKey = None, errorMessage = None\<rparr>],
      queue = []\<rparr> =
     Some \<lparr>id' = ''j1'', userId = ''guest'', inputFileKey = ''uploads/t-a.pdf'',
           inputFileType = ''pdf'', documentType = EXPENSE, status = ''COMPLETED'',
           outputFileKey = None, errorMessage = None\<rparr> \<and>
   downloadGuestJobResult (Some ''bucket'') ''j1''
     \<lparr>jobs = [\<lparr>id' = ''j1'', userId = ''guest'', inputFileKey = ''uploads/t-a.pdf'',
               inputFileType = ''pdf'', documentType = EXPENSE, status = ''COMPLETED'',
               outputFileKey = None, errorMessage = None\<rparr>],
      queue = []\<rparr> = Inl (SignerError ''Key'') \<and>
   downloadGuestJobResult None ''j1''
     \<lparr>jobs = [\<lparr>id' = ''j1'', userId = ''guest'', inputFileKey = ''uploads/t-a.pdf'',
               inputFileType = ''pdf'', documentType = EXPENSE, status = ''COMPLETED'',
               outputFileKey = Some ''outputs/j1-result.xlsx'', errorMessage = None\<rparr>],
      queue = []\<rparr> = Inl (SignerError ''Bucket'')"
  by (simp add: getJobById_def truthy_def repo_findOne_def downloadGuestJobResult_def
        generateDownloadUrl_def getSignedUrl_def)

text \<open>
  C8 (amended): for a job that the lookup returns to the requester, the download handler
  answers by status. PENDING and PROCESSING give status code 202 with the message that the
  document is still being processed, which is neither the 404 of a missing job nor the 400
  of a failed one. FAILED gives status code 400 with a diagnostic that is never empty (the
  job's error message when that is set and not empty, ``Processing failed'' otherwise) and
  no download URL. COMPLETED gives status code 200 with a URL signed for reading the job's
  output key, valid for 300 seconds, when the bucket is configured and the output key is
  set and not empty; when one of them has no value the signer raises and the handler
  returns no answer. The guest handler does as the authenticated one does for a request
  without user id.
\<close>

theorem download_outcome_by_status:
  assumes "getJobById jobId uid s = Some job"
  shows "(status job = ''PENDING'' \<or> status job = ''PROCESSING'' \<longrightarrow>
            downloadJobResult bucket uid jobId s =
              Inr [(''statusCode'', JNumber 202), (''status'', JString (status job)),
                   (''message'', JString ''Document is still being processed'')]) \<and>
         (status job = ''FAILED'' \<longrightarrow>
            (\<exists>diagnostic.
               downloadJobResult bucket uid jobId s =
                 Inr [(''statusCode'', JNumber 400), (''status'', JString ''FAILED''),
                      (''error'', JString diagnostic)] \<and>
               diagnostic \<noteq> [] \<and>
               (truthy (errorMessage job) \<longrightarrow> errorMessage job = Some diagnostic) \<and>
               (\<not> truthy (errorMessage job) \<longrightarrow> diagnostic = ''Processing failed''))) \<and>
         (status job = ''COMPLETED'' \<and> truthy bucket \<and> truthy (outputFileKey job) \<longrightarrow>
            downloadJobResult bucket uid jobId s =
              Inr [(''statusCode'', JNumber 200), (''status'', JString ''COMPLETED''),
                   (''downloadUrl'',
                    JUrl (SignedUrl (GetObjectCommand bucket (outputFileKey job)) 300))]) \<and>
         (status job = ''COMPLETED'' \<and> truthy bucket \<and> \<not> truthy (outputFileKey job) \<longrightarrow>
            downloadJobResult bucket uid jobId s = Inl (SignerError ''Key'')) \<and>
         (status job = ''COMPLETED'' \<and> \<not> truthy bucket \<longrightarrow>
            downloadJobResult bucket uid jobId s = Inl (SignerError ''Bucket'')) \<and>
         (\<not> truthy uid \<longrightarrow>
            downloadGuestJobResult bucket jobId s = downloadJobResult bucket uid jobId s)"
proof -
  have inflight: "downloadJobResult bucket uid jobId s =
      Inr [(''statusCode'', JNumber 202), (''status'', JString (status job)),
           (''message'', JString ''Document is still being processed'')]"
    if "status job = ''PENDING'' \<or> status job = ''PROCESSING''"
    using assms that by (auto simp: downloadJobResult_def)
  have failed: "\<exists>diagnostic.
      downloadJobResult bucket uid jobId s =
        Inr [(''statusCode'', JNumber 400), (''status'', JString ''FAILED''),
             (''error'', JString diagnostic)] \<and>
      diagnostic \<noteq> [] \<and>
      (truthy (errorMessage job) \<longrightarrow> errorMessage job = Some diagnostic) \<and>
      (\<not> truthy (errorMessage job) \<longrightarrow> diagnostic = ''Processing failed'')"
    if "status job = ''FAILED''"
    using assms that
    by (auto simp: downloadJobResult_def orElse_def truthy_def split: option.splits)
  have completed: "downloadJobResult bucket uid jobId s =
      (if truthy bucket
       then (if truthy (outputFileKey job)
             then Inr [(''statusCode'', JNumber 200), (''status'', JString ''COMPLETED''),
                       (''downloadUrl'',
                        JUrl (SignedUrl (GetObjectCommand bucket (outputFileKey job)) 300))]
             else Inl (SignerError ''Key''))
       else Inl (SignerError ''Bucket''))"
    if "status job = ''COMPLETED''"
    using assms that
    by (simp add: downloadJobResult_def generateDownloadUrl_def getSignedUrl_def)
  show ?thesis
    using inflight failed completed downloadGuestJobResult_eq [of uid bucket jobId s]
    by simp
qed

theorem download_outcome_by_status_witness:
  "getJobById ''j1'' None
     \<lparr>jobs = [\<lparr>id' = ''j1'', userId = ''guest'', inputFileKey = ''uploads/t-a.pdf'',
               inputFileType = ''pdf'', documentType = EXPENSE, status = ''COMPLETED'',
               outputFileKey = Some ''outputs/j1-result.xlsx'', errorMessage = None\<rparr>],
      queue = []\<rparr> =
     Some \<lparr>id' = ''j1'', userId = ''guest'', inputFileKey = ''uploads/t-a.pdf'',
           inputFileType = ''pdf'', documentType = EXPENSE, status = ''COMPLETED'',
           outputFileKey = Some ''outputs/j1-result.xlsx'', errorMessage = None\<rparr> \<and>
   truthy (Some ''bucket'') \<and> truthy (Some ''outputs/j1-result.xlsx'') \<and>
   downloadGuestJobResult (Some ''bucket'') ''j1''
     \<lparr>jobs = [\<lparr>id' = ''j1'', userId = ''guest'', inputFileKey = ''uploads/t-a.pdf'',
               inputFileType = ''pdf'', documentType = EXPENSE, status = ''COMPLETED'',
               outputFileKey = Some ''outputs/j1-result.xlsx'', errorMessage = None\<rparr>],
      queue = []\<rparr> =
     Inr [(''statusCode'', JNumber 200), (''status'', JString ''COMPLETED''),
          (''downloadUrl'',
           JUrl (SignedUrl (GetObjectCommand (Some ''bucket'') (Some ''outputs/j1-result.xlsx''))
              300))]"
proof -
  let ?job = "\<lparr>id' = ''j1'', userId = ''guest'', inputFileKey = ''uploads/t-a.pdf'',
           inputFileType = ''pdf'', documentType = EXPENSE, status = ''COMPLETED'',
           outputFileKey = Some ''outputs/j1-result.xlsx'', errorMessage = None\<rparr>"
  let ?s = "\<lparr>jobs = [?job], queue = []\<rparr>"
  have h: "getJobById ''j1'' None ?s = Some ?job"
    by (simp add: getJobById_def truthy_def repo_findOne_def)
  have t: "\<not> truthy None" "truthy (Some ''bucket'')" "truthy (Some ''outputs/j1-result.xlsx'')"
    by (simp_all add: truthy_def)
  from download_outcome_by_status [OF h, of "Some ''bucket''"] h t
  show ?thesis by simp
qed

section \<open>C9: the upload grant\<close>




section \<open>C10: the error field of a failed job\<close>

text \<open>
  C10: for a job in status FAILED that the lookup returns, the status answer has an error
  field that is never empty: the job's error message when that is set and not empty, the
  text ``Processing failed'' otherwise. The guest handler answers as the authenticated one
  does for a request without user id.
\<close>

theorem failed_status_error_field:
  assumes "getJobById jobId uid s = Some job" and "status job = ''FAILED''"
  shows "(truthy (errorMessage job) \<longrightarrow>
            stringField (getJobStatus uid jobId s) ''error'' = errorMessage job) \<and>
         (\<not> truthy (errorMessage job) \<longrightarrow>
            stringField (getJobStatus uid jobId s) ''error'' = Some ''Processing failed'') \<and>
         stringField (getJobStatus uid jobId s) ''error'' \<noteq> None \<and>
         stringField (getJobStatus uid jobId s) ''error'' \<noteq> Some [] \<and>
         (\<not> truthy uid \<longrightarrow> getGuestJobStatus jobId s = getJobStatus uid jobId s)"
  using assms getGuestJobStatus_eq [of uid jobId s]
  by (auto simp: getJobStatus_def stringField_def orElse_def truthy_def split: option.splits)

theorem failed_status_error_field_witness:
  "getJobById ''j1'' None
     \<lparr>jobs = [\<lparr>id' = ''j1'', userId = ''guest'', inputFileKey = ''uploads/t-a.pdf'',
               inputFileType = ''pdf'', documentType = EXPENSE, status = ''FAILED'',
               outputFileKey = None, errorMessage = Some []\<rparr>],
      queue = []\<rparr> =
     Some \<lparr>id' = ''j1'', userId = ''guest'', inputFileKey = ''uploads/t-a.pdf'',
           inputFileType = ''pdf'', documentType = EXPENSE, status = ''FAILED'',
           outputFileKey = None, errorMessage = Some []\<rparr> \<and>
   stringField (getGuestJobStatus ''j1''
     \<lparr>jobs = [\<lparr>id' = ''j1'', userId = ''guest'', inputFileKey = ''uploads/t-a.pdf'',
               inputFileType = ''pdf'', documentType = EXPENSE, status = ''FAILED'',
               outputFileKey = None, errorMessage = Some []\<rparr>],
      queue = []\<rparr>) ''error'' = Some ''Processing failed''"
proof -
  let ?job = "\<lparr>id' = ''j1'', userId = ''guest'', inputFileKey = ''uploads/t-a.pdf'',
           inputFileType = ''pdf'', documentType = EXPENSE, status = ''FAILED'',
           outputFileKey = None, errorMessage = Some []\<rparr>"
  let ?s = "\<lparr>jobs = [?job], queue = []\<rparr>"
  have h: "getJobById ''j1'' None ?s = Some ?job"
    by (simp add: getJobById_def truthy_def repo_findOne_def)
  have f: "status ?job = ''FAILED''" by simp
  have t: "\<not> truthy None" and e: "\<not> truthy (errorMessage ?job)"
    by (simp_all add: truthy_def)
  from failed_status_error_field [OF h f] h t e
  show ?thesis by simp
qed

end
